theory Spec2Isabelle
  imports Complex_Main
begin

section \<open>Values, requests and the runtime\<close>

text \<open>
  The client of \<^verbatim>\<open>src/app.ts\<close> is a thin wrapper around \<^verbatim>\<open>fetch\<close>: every method
  builds one request, awaits one response and post-processes the parsed body. The
  development models

  \<^item> the JavaScript values that travel through the client (arguments of type \<^verbatim>\<open>any\<close>,
    object literals handed to \<^verbatim>\<open>JSON.stringify\<close>, parsed response bodies) as the
    datatype \<open>js_value\<close>; a property that is missing reads as \<open>JUndefined\<close>;
  \<^item> a rejected promise or a \<^verbatim>\<open>throw\<close> as the left summand of \<open>error + 'a\<close>;
  \<^item> the effects as explicit state passing over a record \<open>world\<close> that holds the client
    object (\<^verbatim>\<open>this\<close>), the list of requests that \<^verbatim>\<open>fetch\<close> has sent so far, and whether
    \<^verbatim>\<open>fetch\<close> turned its last request down before sending it;
  \<^item> what lies outside the source and its libraries as a parameter \<open>runtime\<close>: the
    serializer \<^verbatim>\<open>JSON.stringify\<close> and the network together with the server, an arbitrary
    function of the whole history of requests sent.

  \<^verbatim>\<open>console.log\<close> writes to standard output only and is left out. Numbers are carried as
  reals; the client never computes with them.
\<close>

datatype Date = Date (time_value: int)

datatype js_value =
    JUndefined
  | JNull
  | JBool bool
  | JNum real
  | JStr string
  | JDate Date
  | JArr "js_value list"
  | JObj "(string \<times> js_value) list"

datatype error =
    TransportError string
  | TypeError
  | Error js_value

text \<open>
  \<open>TransportError\<close> is a rejection of \<^verbatim>\<open>fetch\<close> by the network or of \<^verbatim>\<open>response.json()\<close>;
  \<open>TypeError\<close> is what reading a property of \<^verbatim>\<open>null\<close> throws, and what \<^verbatim>\<open>fetch\<close> rejects
  with when it is handed a \<^verbatim>\<open>GET\<close> or \<^verbatim>\<open>HEAD\<close> that carries a body; \<open>Error m\<close> is
  \<^verbatim>\<open>new Error(m)\<close>, kept with the argument the constructor was given.
\<close>

type_synonym ID = string

datatype HubPermission =
    HubPermission_All
  | HubPermission_ReadChannels
  | HubPermission_WriteChannels
  | HubPermission_Administrate
  | HubPermission_ManageChannels
  | HubPermission_Mute
  | HubPermission_Unmute
  | HubPermission_Kick
  | HubPermission_Ban
  | HubPermission_Unban

fun HubPermission_value :: "HubPermission \<Rightarrow> string" where
  "HubPermission_value HubPermission_All = ''ALL''"
| "HubPermission_value HubPermission_ReadChannels = ''READ_CHANNELS''"
| "HubPermission_value HubPermission_WriteChannels = ''WRITE_CHANNELS''"
| "HubPermission_value HubPermission_Administrate = ''ADMINISTRATE''"
| "HubPermission_value HubPermission_ManageChannels = ''MANAGE_CHANNELS''"
| "HubPermission_value HubPermission_Mute = ''MUTE''"
| "HubPermission_value HubPermission_Unmute = ''UNMUTE''"
| "HubPermission_value HubPermission_Kick = ''KICK''"
| "HubPermission_value HubPermission_Ban = ''BAN''"
| "HubPermission_value HubPermission_Unban = ''UNBAN''"

datatype ChannelPermission =
    ChannelPermission_Write
  | ChannelPermission_Read
  | ChannelPermission_Manage
  | ChannelPermission_All

fun ChannelPermission_value :: "ChannelPermission \<Rightarrow> string" where
  "ChannelPermission_value ChannelPermission_Write = ''WRITE''"
| "ChannelPermission_value ChannelPermission_Read = ''READ''"
| "ChannelPermission_value ChannelPermission_Manage = ''MANAGE''"
| "ChannelPermission_value ChannelPermission_All = ''ALL''"

record HttpClient =
  base_url :: string
  auth :: string

text \<open>
  \<^verbatim>\<open>RequestInit\<close> as the client fills it: the headers object is an association list in
  the order of the literal, and a \<^verbatim>\<open>body\<close> that is missing or \<^verbatim>\<open>undefined\<close> is \<open>None\<close>.
  The field \<^verbatim>\<open>method\<close> is written \<open>method'\<close>.
\<close>

record RequestInit =
  method' :: string
  headers :: "(string \<times> string) list"
  body :: "string option"

type_synonym Request = "string \<times> RequestInit"

datatype Response = Response (json: "string + js_value")

record runtime =
  JSON_stringify :: "js_value \<Rightarrow> string option"
  network :: "Request list \<Rightarrow> string + Response"

record world =
  client :: HttpClient
  sent :: "Request list"
  refused :: bool

type_synonym 'a promise = "world \<Rightarrow> (error + 'a) \<times> world"

text \<open>
  \<^verbatim>\<open>fetch\<close> is the one of \<^verbatim>\<open>node-fetch\<close>, which \<^verbatim>\<open>src/app.ts\<close> imports. Before anything is
  sent it builds a \<^verbatim>\<open>Request\<close>: the method is \<^verbatim>\<open>init.method\<close>, or \<^verbatim>\<open>GET\<close> when that is
  empty, in upper case, and a \<^verbatim>\<open>GET\<close> or \<^verbatim>\<open>HEAD\<close> whose \<^verbatim>\<open>init.body\<close> is not \<^verbatim>\<open>null\<close> or
  \<^verbatim>\<open>undefined\<close> throws the \<^verbatim>\<open>TypeError\<close> "Request with GET/HEAD method cannot have body",
  so the promise rejects and the network sees nothing. Every other request goes to the
  network.
\<close>

definition toUpperCase :: "string \<Rightarrow> string" where
  "toUpperCase s =
     map (\<lambda>c. case map_of (zip ''abcdefghijklmnopqrstuvwxyz''
                                ''ABCDEFGHIJKLMNOPQRSTUVWXYZ'') c of
                 None \<Rightarrow> c
               | Some u \<Rightarrow> u) s"

definition request_method :: "RequestInit \<Rightarrow> string" where
  "request_method init = toUpperCase (if method' init = [] then ''GET'' else method' init)"

definition cannot_have_body :: "RequestInit \<Rightarrow> bool" where
  "cannot_have_body init =
     (body init \<noteq> None \<and> (request_method init = ''GET'' \<or> request_method init = ''HEAD''))"

definition fetch :: "runtime \<Rightarrow> string \<Rightarrow> RequestInit \<Rightarrow> Response promise" where
  "fetch rt url init w =
     (if cannot_have_body init then (Inl TypeError, w\<lparr>refused := True\<rparr>)
      else
        (let history = sent w @ [(url, init)] in
         (case network rt history of
            Inl m \<Rightarrow> Inl (TransportError m)
          | Inr response \<Rightarrow> Inr response,
          w\<lparr>sent := history, refused := False\<rparr>)))"

definition response_json :: "Response \<Rightarrow> error + js_value" where
  "response_json response =
     (case json response of Inl m \<Rightarrow> Inl (TransportError m) | Inr v \<Rightarrow> Inr v)"

text \<open>
  Reading the property \<^verbatim>\<open>success\<close> or \<^verbatim>\<open>error\<close> of a parsed body: an object yields the
  entry or \<^verbatim>\<open>undefined\<close>, \<^verbatim>\<open>null\<close> throws, every other value has no such property.
\<close>

fun get_property :: "js_value \<Rightarrow> string \<Rightarrow> error + js_value" where
  "get_property (JObj kvs) k = (case map_of kvs k of None \<Rightarrow> Inr JUndefined | Some v \<Rightarrow> Inr v)"
| "get_property JNull k = Inl TypeError"
| "get_property JUndefined k = Inl TypeError"
| "get_property v k = Inr JUndefined"

fun truthy :: "js_value \<Rightarrow> bool" where
  "truthy JUndefined = False"
| "truthy JNull = False"
| "truthy (JBool b) = b"
| "truthy (JNum n) = (n \<noteq> 0)"
| "truthy (JStr s) = (s \<noteq> [])"
| "truthy v = True"

section \<open>The transport primitive and the verb helpers\<close>

text \<open>Lines 139 to 144 of \<^verbatim>\<open>src/app.ts\<close>: the envelope test of \<^verbatim>\<open>http\<close>.\<close>

definition unwrap :: "js_value \<Rightarrow> error + js_value" where
  "unwrap result =
     (case get_property result ''success'' of
        Inl e \<Rightarrow> Inl e
      | Inr success \<Rightarrow>
          if success \<noteq> JUndefined then Inr success
          else (case get_property result ''error'' of
                  Inl e \<Rightarrow> Inl e
                | Inr message \<Rightarrow> Inl (Error message)))"

definition default_init :: "HttpClient \<Rightarrow> RequestInit" where
  "default_init this =
     \<lparr>method' = ''GET'', headers = [(''Authorization'', auth this)], body = None\<rparr>"

definition http :: "runtime \<Rightarrow> string \<Rightarrow> RequestInit option \<Rightarrow> js_value promise" where
  "http rt url init w =
     (case fetch rt url (case init of None \<Rightarrow> default_init (client w) | Some i \<Rightarrow> i) w of
        (Inl e, w') \<Rightarrow> (Inl e, w')
      | (Inr response, w') \<Rightarrow>
          (case response_json response of
             Inl e \<Rightarrow> (Inl e, w')
           | Inr result \<Rightarrow> (unwrap result, w')))"

definition post :: "runtime \<Rightarrow> string \<Rightarrow> js_value \<Rightarrow> js_value promise" where
  "post rt url body_arg w =
     (let (body_text, content_type) =
            (if body_arg \<noteq> JUndefined
             then (JSON_stringify rt body_arg, ''application/json'')
             else (Some [], []))
      in http rt url
           (Some \<lparr>method' = ''POST'',
                  headers = [(''Authorization'', auth (client w)),
                             (''Content-type'', content_type)],
                  body = body_text\<rparr>) w)"

definition put :: "runtime \<Rightarrow> string \<Rightarrow> string option \<Rightarrow> js_value promise" where
  "put rt url body_arg w =
     http rt url
       (Some \<lparr>method' = ''PUT'',
              headers = [(''Authorization'', auth (client w)),
                         (''Content-type'', ''application/json'')],
              body = body_arg\<rparr>) w"

definition delete :: "runtime \<Rightarrow> string \<Rightarrow> js_value promise" where
  "delete rt url w =
     http rt url
       (Some \<lparr>method' = ''DELETE'',
              headers = [(''Authorization'', auth (client w))],
              body = None\<rparr>) w"

text \<open>
  The same primitive in the earlier draft of the client (\<^verbatim>\<open>if (result.success)\<close>), which
  tests truthiness.
\<close>

definition unwrap_draft :: "js_value \<Rightarrow> error + js_value" where
  "unwrap_draft result =
     (case get_property result ''success'' of
        Inl e \<Rightarrow> Inl e
      | Inr success \<Rightarrow>
          if truthy success then Inr success
          else (case get_property result ''error'' of
                  Inl e \<Rightarrow> Inl e
                | Inr message \<Rightarrow> Inl (Error message)))"

definition http_draft :: "runtime \<Rightarrow> string \<Rightarrow> RequestInit option \<Rightarrow> js_value promise" where
  "http_draft rt url init w =
     (case fetch rt url (case init of None \<Rightarrow> default_init (client w) | Some i \<Rightarrow> i) w of
        (Inl e, w') \<Rightarrow> (Inl e, w')
      | (Inr response, w') \<Rightarrow>
          (case response_json response of
             Inl e \<Rightarrow> (Inl e, w')
           | Inr result \<Rightarrow> (unwrap_draft result, w')))"

section \<open>The endpoint methods\<close>

text \<open>
  An optional argument that is left out is \<^verbatim>\<open>undefined\<close>; inside an object literal it is
  a property whose value is \<^verbatim>\<open>undefined\<close>. \<^verbatim>\<open>HubUpdate\<close> and \<^verbatim>\<open>ChannelUpdate\<close> are
  interfaces, so an update is whatever object the caller built.
\<close>

fun optional_string :: "string option \<Rightarrow> js_value" where
  "optional_string None = JUndefined"
| "optional_string (Some s) = JStr s"

fun optional_boolean :: "bool option \<Rightarrow> js_value" where
  "optional_boolean None = JUndefined"
| "optional_boolean (Some b) = JBool b"

definition getHub :: "runtime \<Rightarrow> ID \<Rightarrow> js_value promise" where
  "getHub rt id' w = http rt (base_url (client w) @ ''/hub/'' @ id') None w"

definition createHub :: "runtime \<Rightarrow> string option \<Rightarrow> string option \<Rightarrow> js_value promise" where
  "createHub rt name description w =
     post rt (base_url (client w) @ ''/hub'')
       (JObj [(''name'', optional_string name),
              (''description'', optional_string description)]) w"

definition deleteHub :: "runtime \<Rightarrow> ID \<Rightarrow> js_value promise" where
  "deleteHub rt id' w = http rt (base_url (client w) @ ''/hub/'' @ id') None w"

definition updateHub :: "runtime \<Rightarrow> ID \<Rightarrow> js_value \<Rightarrow> js_value promise" where
  "updateHub rt id' update w =
     put rt (base_url (client w) @ ''/hub/'' @ id') (JSON_stringify rt update) w"

definition joinHub :: "runtime \<Rightarrow> ID \<Rightarrow> js_value promise" where
  "joinHub rt hub_id w =
     post rt (base_url (client w) @ ''/hub/'' @ hub_id @ ''/join'') JUndefined w"

definition leaveHub :: "runtime \<Rightarrow> ID \<Rightarrow> js_value promise" where
  "leaveHub rt hub_id w =
     post rt (base_url (client w) @ ''/hub/'' @ hub_id @ ''/leave'') JUndefined w"

definition getChannel :: "runtime \<Rightarrow> ID \<Rightarrow> ID \<Rightarrow> js_value promise" where
  "getChannel rt hub_id channel_id w =
     http rt (base_url (client w) @ ''/channel/'' @ hub_id @ ''/'' @ channel_id) None w"

definition updateChannel :: "runtime \<Rightarrow> ID \<Rightarrow> ID \<Rightarrow> js_value \<Rightarrow> js_value promise" where
  "updateChannel rt hub_id channel_id update w =
     put rt (base_url (client w) @ ''/channel/'' @ hub_id @ ''/'' @ channel_id)
       (JSON_stringify rt update) w"

definition deleteChannel :: "runtime \<Rightarrow> ID \<Rightarrow> ID \<Rightarrow> js_value promise" where
  "deleteChannel rt hub_id channel_id w =
     delete rt (base_url (client w) @ ''/channel/'' @ hub_id @ ''/'' @ channel_id) w"

definition createChannel ::
  "runtime \<Rightarrow> ID \<Rightarrow> string option \<Rightarrow> string option \<Rightarrow> js_value promise" where
  "createChannel rt hub_id name description w =
     post rt (base_url (client w) @ ''/channel/'' @ hub_id)
       (JObj [(''name'', optional_string name),
              (''description'', optional_string description)]) w"

definition getMember :: "runtime \<Rightarrow> ID \<Rightarrow> ID \<Rightarrow> js_value promise" where
  "getMember rt hub_id member_id w =
     http rt (base_url (client w) @ ''/member/'' @ hub_id @ ''/'' @ member_id) None w"

definition getMemberStatus :: "runtime \<Rightarrow> ID \<Rightarrow> ID \<Rightarrow> js_value promise" where
  "getMemberStatus rt hub_id member_id w =
     http rt (base_url (client w) @ ''/member/'' @ hub_id @ ''/'' @ member_id @ ''/status'')
       None w"

definition setMemberHubPermission ::
  "runtime \<Rightarrow> ID \<Rightarrow> ID \<Rightarrow> HubPermission \<Rightarrow> bool option \<Rightarrow> js_value promise" where
  "setMemberHubPermission rt hub_id member_id permission setting w =
     put rt (base_url (client w) @ ''/member/'' @ hub_id @ ''/'' @ member_id
               @ ''/hub_permission/'' @ HubPermission_value permission)
       (JSON_stringify rt (JObj [(''setting'', optional_boolean setting)])) w"

definition setMemberChannelPermission ::
  "runtime \<Rightarrow> ID \<Rightarrow> ID \<Rightarrow> ID \<Rightarrow> ChannelPermission \<Rightarrow> bool option \<Rightarrow> js_value promise" where
  "setMemberChannelPermission rt hub_id member_id channel_id permission setting w =
     put rt (base_url (client w) @ ''/member/'' @ hub_id @ ''/'' @ member_id
               @ ''/channel_permission/'' @ channel_id @ ''/''
               @ ChannelPermission_value permission)
       (JSON_stringify rt (JObj [(''setting'', optional_boolean setting)])) w"

definition getMemberHubPermission ::
  "runtime \<Rightarrow> ID \<Rightarrow> ID \<Rightarrow> HubPermission \<Rightarrow> js_value promise" where
  "getMemberHubPermission rt hub_id member_id permission w =
     http rt (base_url (client w) @ ''/member/'' @ hub_id @ ''/'' @ member_id
                @ ''/hub_permission/'' @ HubPermission_value permission) None w"

definition getMemberChannelPermission ::
  "runtime \<Rightarrow> ID \<Rightarrow> ID \<Rightarrow> ID \<Rightarrow> ChannelPermission \<Rightarrow> js_value promise" where
  "getMemberChannelPermission rt hub_id member_id channel_id permission w =
     http rt (base_url (client w) @ ''/member/'' @ hub_id @ ''/'' @ member_id
                @ ''/channel_permission/'' @ channel_id @ ''/''
                @ ChannelPermission_value permission) None w"

definition banMember :: "runtime \<Rightarrow> ID \<Rightarrow> ID \<Rightarrow> js_value promise" where
  "banMember rt hub_id member_id w =
     post rt (base_url (client w) @ ''/member/'' @ hub_id @ ''/'' @ member_id @ ''/ban'')
       JUndefined w"

definition unbanMember :: "runtime \<Rightarrow> ID \<Rightarrow> ID \<Rightarrow> js_value promise" where
  "unbanMember rt hub_id member_id w =
     post rt (base_url (client w) @ ''/member/'' @ hub_id @ ''/'' @ member_id @ ''/unban'')
       JUndefined w"

definition muteMember :: "runtime \<Rightarrow> ID \<Rightarrow> ID \<Rightarrow> js_value promise" where
  "muteMember rt hub_id member_id w =
     post rt (base_url (client w) @ ''/member/'' @ hub_id @ ''/'' @ member_id @ ''/mute'')
       JUndefined w"

definition unmuteMember :: "runtime \<Rightarrow> ID \<Rightarrow> ID \<Rightarrow> js_value promise" where
  "unmuteMember rt hub_id member_id w =
     post rt (base_url (client w) @ ''/member/'' @ hub_id @ ''/'' @ member_id @ ''/unmute'')
       JUndefined w"

definition kickMember :: "runtime \<Rightarrow> ID \<Rightarrow> ID \<Rightarrow> js_value promise" where
  "kickMember rt hub_id member_id w =
     post rt (base_url (client w) @ ''/member/'' @ hub_id @ ''/'' @ member_id @ ''/kick'')
       JUndefined w"

definition sendMessage :: "runtime \<Rightarrow> ID \<Rightarrow> ID \<Rightarrow> string \<Rightarrow> js_value promise" where
  "sendMessage rt hub_id channel_id message w =
     post rt (base_url (client w) @ ''/message/'' @ hub_id @ ''/'' @ channel_id)
       (JObj [(''message'', JStr message)]) w"

definition getMessage :: "runtime \<Rightarrow> ID \<Rightarrow> ID \<Rightarrow> ID \<Rightarrow> js_value promise" where
  "getMessage rt hub_id channel_id message_id w =
     http rt (base_url (client w) @ ''/message/'' @ hub_id @ ''/'' @ channel_id
                @ ''/'' @ message_id) None w"

definition getMessagesAfter :: "runtime \<Rightarrow> ID \<Rightarrow> ID \<Rightarrow> ID \<Rightarrow> real \<Rightarrow> js_value promise" where
  "getMessagesAfter rt hub_id channel_id from max' w =
     http rt (base_url (client w) @ ''/message/'' @ hub_id @ ''/'' @ channel_id @ ''/after'')
       (Some \<lparr>method' = ''GET'',
              headers = [(''Authorization'', auth (client w)),
                         (''Content-type'', ''application/json'')],
              body = JSON_stringify rt (JObj [(''from'', JStr from), (''max'', JNum max')])\<rparr>)
       w"

definition getMesssagesTimeRange ::
  "runtime \<Rightarrow> ID \<Rightarrow> ID \<Rightarrow> Date \<Rightarrow> Date \<Rightarrow> real \<Rightarrow> bool \<Rightarrow> js_value promise" where
  "getMesssagesTimeRange rt hub_id channel_id from to max' new_to_old w =
     http rt (base_url (client w) @ ''/message/'' @ hub_id @ ''/'' @ channel_id
                @ ''/time_period'')
       (Some \<lparr>method' = ''GET'',
              headers = [(''Authorization'', auth (client w)),
                         (''Content-type'', ''application/json'')],
              body = JSON_stringify rt
                       (JObj [(''from'', JDate from), (''to'', JDate to),
                              (''max'', JNum max'), (''new_to_old'', JBool new_to_old)])\<rparr>)
       w"

text \<open>\<^verbatim>\<open>graphQL\<close> calls \<^verbatim>\<open>fetch\<close> itself and hands back what \<^verbatim>\<open>response.json()\<close> yields.\<close>

definition graphQL :: "runtime \<Rightarrow> string \<Rightarrow> js_value \<Rightarrow> js_value promise" where
  "graphQL rt query variables w =
     (case fetch rt (base_url (client w) @ ''/graphql'')
             \<lparr>method' = ''POST'',
              headers = [(''Authorization'', auth (client w)),
                         (''Content-type'', ''application/json'')],
              body = JSON_stringify rt
                       (JObj [(''query'', JStr query), (''variables'', variables)])\<rparr> w of
        (Inl e, w') \<Rightarrow> (Inl e, w')
      | (Inr response, w') \<Rightarrow> (response_json response, w'))"

section \<open>The interface of the client as a whole\<close>

text \<open>
  One constructor for each method of the class \<^verbatim>\<open>HttpClient\<close>, so that a statement about
  every call is a statement about every value of \<open>call\<close>; \<open>perform\<close> runs the method.
\<close>

datatype call =
    Http string "RequestInit option"
  | Post string js_value
  | Put string "string option"
  | Delete string
  | GetHub ID
  | CreateHub "string option" "string option"
  | DeleteHub ID
  | UpdateHub ID js_value
  | JoinHub ID
  | LeaveHub ID
  | GetChannel ID ID
  | UpdateChannel ID ID js_value
  | DeleteChannel ID ID
  | CreateChannel ID "string option" "string option"
  | GetMember ID ID
  | GetMemberStatus ID ID
  | SetMemberHubPermission ID ID HubPermission "bool option"
  | SetMemberChannelPermission ID ID ID ChannelPermission "bool option"
  | GetMemberHubPermission ID ID HubPermission
  | GetMemberChannelPermission ID ID ID ChannelPermission
  | BanMember ID ID
  | UnbanMember ID ID
  | MuteMember ID ID
  | UnmuteMember ID ID
  | KickMember ID ID
  | SendMessage ID ID string
  | GetMessage ID ID ID
  | GetMessagesAfter ID ID ID real
  | GetMesssagesTimeRange ID ID Date Date real bool
  | GraphQL string js_value

fun perform :: "runtime \<Rightarrow> call \<Rightarrow> js_value promise" where
  "perform rt (Http url init) = http rt url init"
| "perform rt (Post url b) = post rt url b"
| "perform rt (Put url b) = put rt url b"
| "perform rt (Delete url) = delete rt url"
| "perform rt (GetHub h) = getHub rt h"
| "perform rt (CreateHub n d) = createHub rt n d"
| "perform rt (DeleteHub h) = deleteHub rt h"
| "perform rt (UpdateHub h u) = updateHub rt h u"
| "perform rt (JoinHub h) = joinHub rt h"
| "perform rt (LeaveHub h) = leaveHub rt h"
| "perform rt (GetChannel h c) = getChannel rt h c"
| "perform rt (UpdateChannel h c u) = updateChannel rt h c u"
| "perform rt (DeleteChannel h c) = deleteChannel rt h c"
| "perform rt (CreateChannel h n d) = createChannel rt h n d"
| "perform rt (GetMember h m) = getMember rt h m"
| "perform rt (GetMemberStatus h m) = getMemberStatus rt h m"
| "perform rt (SetMemberHubPermission h m p s) = setMemberHubPermission rt h m p s"
| "perform rt (SetMemberChannelPermission h m c p s) =
     setMemberChannelPermission rt h m c p s"
| "perform rt (GetMemberHubPermission h m p) = getMemberHubPermission rt h m p"
| "perform rt (GetMemberChannelPermission h m c p) = getMemberChannelPermission rt h m c p"
| "perform rt (BanMember h m) = banMember rt h m"
| "perform rt (UnbanMember h m) = unbanMember rt h m"
| "perform rt (MuteMember h m) = muteMember rt h m"
| "perform rt (UnmuteMember h m) = unmuteMember rt h m"
| "perform rt (KickMember h m) = kickMember rt h m"
| "perform rt (SendMessage h c t) = sendMessage rt h c t"
| "perform rt (GetMessage h c m) = getMessage rt h c m"
| "perform rt (GetMessagesAfter h c f n) = getMessagesAfter rt h c f n"
| "perform rt (GetMesssagesTimeRange h c f t n r) = getMesssagesTimeRange rt h c f t n r"
| "perform rt (GraphQL q v) = graphQL rt q v"

text \<open>Every method but \<^verbatim>\<open>graphQL\<close> goes through \<^verbatim>\<open>http\<close> and its envelope test.\<close>

fun uses_envelope :: "call \<Rightarrow> bool" where
  "uses_envelope (GraphQL q v) = False"
| "uses_envelope c = True"

text \<open>
  What the two awaits of \<^verbatim>\<open>http\<close> and of \<^verbatim>\<open>graphQL\<close> produce in the world that \<^verbatim>\<open>fetch\<close>
  leaves behind: the \<^verbatim>\<open>TypeError\<close> when the request was turned down, else the parsed body
  that comes back for the last request sent.
\<close>

definition reply :: "runtime \<Rightarrow> world \<Rightarrow> error + js_value" where
  "reply rt w =
     (if refused w then Inl TypeError
      else (case network rt (sent w) of
              Inl m \<Rightarrow> Inl (TransportError m)
            | Inr response \<Rightarrow> response_json response))"

section \<open>Sample inputs\<close>

text \<open>
  A client as the test script of \<^verbatim>\<open>src/app.ts\<close> builds it; a stand-in serializer that
  knows the payloads of the examples; a network that answers every request with the same
  parsed body; and a server that keeps hub permissions: it answers a \<^verbatim>\<open>PUT\<close> with a member
  status, and a \<^verbatim>\<open>GET\<close> with \<^verbatim>\<open>true\<close> once the same path has been set to \<^verbatim>\<open>true\<close>, with
  \<^verbatim>\<open>null\<close> before.
\<close>

definition sample_world :: world where
  "sample_world =
     \<lparr>client = \<lparr>base_url = ''http://127.0.0.1:8080/api'', auth = ''user-1''\<rparr>, sent = [],
      refused = False\<rparr>"

definition sample_stringify :: "js_value \<Rightarrow> string option" where
  "sample_stringify v =
     (if v = JObj [(''setting'', JBool True)] then Some ''{\"setting\":true}''
      else if v = JObj [(''message'', JStr ''test message'')]
        then Some ''{\"message\":\"test message\"}''
      else if v = JObj [(''from'', JStr ''message-1''), (''max'', JNum 50)]
        then Some ''{\"from\":\"message-1\",\"max\":50}''
      else if v = JObj [(''from'', JDate (Date 0)), (''to'', JDate (Date 1000)),
                        (''max'', JNum 50), (''new_to_old'', JBool True)]
        then Some (''{\"from\":\"1970-01-01T00:00:00.000Z\",''
                   @ ''\"to\":\"1970-01-01T00:00:01.000Z\",\"max\":50,\"new_to_old\":true}'')
      else if v = JUndefined then None
      else Some ''null'')"

definition answering :: "js_value \<Rightarrow> runtime" where
  "answering v =
     \<lparr>JSON_stringify = sample_stringify, network = (\<lambda>history. Inr (Response (Inr v)))\<rparr>"



section \<open>What one call does\<close>

lemma toUpperCase_literals [simp]:
  "toUpperCase ''GET'' = ''GET''"
  "toUpperCase ''POST'' = ''POST''"
  "toUpperCase ''PUT'' = ''PUT''"
  "toUpperCase ''DELETE'' = ''DELETE''"
  by (simp_all add: toUpperCase_def)

lemma cannot_have_body_literals [simp]:
  "cannot_have_body \<lparr>method' = m, headers = hs, body = None\<rparr> = False"
  "cannot_have_body \<lparr>method' = ''POST'', headers = hs, body = b\<rparr> = False"
  "cannot_have_body \<lparr>method' = ''PUT'', headers = hs, body = b\<rparr> = False"
  "cannot_have_body \<lparr>method' = ''GET'', headers = hs, body = Some t\<rparr> = True"
  by (simp_all add: cannot_have_body_def request_method_def)

lemma cannot_have_body_default [simp]: "cannot_have_body (default_init this) = False"
  by (simp add: default_init_def)

lemma fetch_sends:
  "\<not> cannot_have_body init \<Longrightarrow>
   fetch rt url init w =
     (case network rt (sent w @ [(url, init)]) of
        Inl m \<Rightarrow> Inl (TransportError m) | Inr response \<Rightarrow> Inr response,
      w\<lparr>sent := sent w @ [(url, init)], refused := False\<rparr>)"
  by (simp add: fetch_def Let_def)

lemma fetch_refuses:
  "cannot_have_body init \<Longrightarrow> fetch rt url init w = (Inl TypeError, w\<lparr>refused := True\<rparr>)"
  by (simp add: fetch_def)

text \<open>
  \<^verbatim>\<open>http\<close> hands exactly one request to \<^verbatim>\<open>fetch\<close> and touches nothing else; what it
  returns is the envelope test applied to the body that came back.
\<close>

lemma http_world:
  "\<not> cannot_have_body (case init of None \<Rightarrow> default_init (client w) | Some i \<Rightarrow> i) \<Longrightarrow>
   snd (http rt url init w) =
     w\<lparr>sent := sent w @
        [(url, case init of None \<Rightarrow> default_init (client w) | Some i \<Rightarrow> i)],
       refused := False\<rparr>"
  by (simp add: http_def fetch_sends split: sum.split)

lemma http_refused:
  "cannot_have_body (case init of None \<Rightarrow> default_init (client w) | Some i \<Rightarrow> i) \<Longrightarrow>
   http rt url init w = (Inl TypeError, w\<lparr>refused := True\<rparr>)"
  by (simp add: http_def fetch_refuses)

lemma http_client: "client (snd (http rt url init w)) = client w"
  by (cases "cannot_have_body (case init of None \<Rightarrow> default_init (client w) | Some i \<Rightarrow> i)")
    (simp_all add: http_world http_refused)

lemma http_result:
  "fst (http rt url init w) =
     (case reply rt (snd (http rt url init w)) of
        Inl e \<Rightarrow> Inl e | Inr result \<Rightarrow> unwrap result)"
proof (cases "cannot_have_body (case init of None \<Rightarrow> default_init (client w) | Some i \<Rightarrow> i)")
  case True
  then show ?thesis by (simp add: http_refused reply_def)
next
  case False
  then show ?thesis
    by (simp add: http_world) (simp add: http_def fetch_sends reply_def split: sum.split)
qed

lemma http_draft_result:
  "fst (http_draft rt url init w) =
     (case reply rt (snd (http_draft rt url init w)) of
        Inl e \<Rightarrow> Inl e | Inr result \<Rightarrow> unwrap_draft result)"
proof (cases "cannot_have_body (case init of None \<Rightarrow> default_init (client w) | Some i \<Rightarrow> i)")
  case True
  then show ?thesis by (simp add: http_draft_def fetch_refuses reply_def)
next
  case False
  then show ?thesis
    by (simp add: http_draft_def fetch_sends reply_def split: sum.split)
qed

lemma http_draft_default_sent [simp]: "refused (snd (http_draft rt url None w)) = False"
  by (simp add: http_draft_def fetch_sends split: sum.split)

lemma graphQL_world:
  "snd (graphQL rt query variables w) =
     w\<lparr>sent := sent w @
        [(base_url (client w) @ ''/graphql'',
          \<lparr>method' = ''POST'',
           headers = [(''Authorization'', auth (client w)),
                      (''Content-type'', ''application/json'')],
           body = JSON_stringify rt
                    (JObj [(''query'', JStr query), (''variables'', variables)])\<rparr>)],
       refused := False\<rparr>"
  by (simp add: graphQL_def fetch_sends split: sum.split)

lemma graphQL_result:
  "fst (graphQL rt query variables w) = reply rt (snd (graphQL rt query variables w))"
  by (simp add: graphQL_world) (simp add: graphQL_def fetch_sends reply_def split: sum.split)

lemmas method_defs =
  post_def put_def delete_def getHub_def createHub_def deleteHub_def updateHub_def
  joinHub_def leaveHub_def getChannel_def updateChannel_def deleteChannel_def
  createChannel_def getMember_def getMemberStatus_def setMemberHubPermission_def
  setMemberChannelPermission_def getMemberHubPermission_def
  getMemberChannelPermission_def banMember_def unbanMember_def muteMember_def
  unmuteMember_def kickMember_def sendMessage_def getMessage_def getMessagesAfter_def
  getMesssagesTimeRange_def

lemma perform_is_http:
  "uses_envelope c \<Longrightarrow> \<exists>url init. perform rt c w = http rt url init w"
  by (cases c) (auto simp add: method_defs Let_def split: prod.split)

lemma perform_result:
  assumes "uses_envelope c"
  shows "fst (perform rt c w) =
     (case reply rt (snd (perform rt c w)) of
        Inl e \<Rightarrow> Inl e | Inr result \<Rightarrow> unwrap result)"
proof -
  from assms obtain url init where "perform rt c w = http rt url init w"
    using perform_is_http by blast
  then show ?thesis by (simp add: http_result)
qed

lemma perform_client: "client (snd (perform rt c w)) = client w"
proof (cases "uses_envelope c")
  case True
  then obtain url init where "perform rt c w = http rt url init w"
    using perform_is_http by blast
  then show ?thesis by (simp add: http_client)
next
  case False
  then obtain q v where "c = GraphQL q v" by (cases c) simp_all
  then show ?thesis by (simp add: graphQL_world)
qed

subsection \<open>The request of each verb helper\<close>

lemma post_world:
  "snd (post rt url b w) =
     w\<lparr>sent := sent w @
        [(url,
          \<lparr>method' = ''POST'',
           headers = [(''Authorization'', auth (client w)),
                      (''Content-type'', if b \<noteq> JUndefined then ''application/json'' else [])],
           body = (if b \<noteq> JUndefined then JSON_stringify rt b else Some [])\<rparr>)],
       refused := False\<rparr>"
  by (simp add: post_def http_world)

lemma put_world:
  "snd (put rt url b w) =
     w\<lparr>sent := sent w @
        [(url,
          \<lparr>method' = ''PUT'',
           headers = [(''Authorization'', auth (client w)),
                      (''Content-type'', ''application/json'')],
           body = b\<rparr>)],
       refused := False\<rparr>"
  by (simp add: put_def http_world)

lemma delete_world:
  "snd (delete rt url w) =
     w\<lparr>sent := sent w @
        [(url,
          \<lparr>method' = ''DELETE'',
           headers = [(''Authorization'', auth (client w))],
           body = None\<rparr>)],
       refused := False\<rparr>"
  by (simp add: delete_def http_world)

lemma reply_not_Error: "reply rt w \<noteq> Inl (Error m)"
  by (simp add: reply_def response_json_def split: sum.split)

lemma http_default_sent [simp]: "refused (snd (http rt url None w)) = False"
  by (simp add: http_world)

lemma post_sent [simp]: "refused (snd (post rt url b w)) = False"
  by (simp add: post_world)

lemma graphQL_sent [simp]: "refused (snd (graphQL rt query variables w)) = False"
  by (simp add: graphQL_world)

subsection \<open>The envelope test\<close>

lemma unwrap_defined:
  "map_of kvs ''success'' = Some v \<Longrightarrow> v \<noteq> JUndefined \<Longrightarrow> unwrap (JObj kvs) = Inr v"
  by (simp add: unwrap_def)

lemma unwrap_undefined:
  "get_property result ''success'' = Inr JUndefined \<Longrightarrow>
   get_property result ''error'' = Inr m \<Longrightarrow> unwrap result = Inl (Error m)"
  by (simp add: unwrap_def)


lemma get_property_total:
  "get_property result ''success'' = Inr v \<Longrightarrow> \<exists>m. get_property result ''error'' = Inr m"
  by (cases result) (simp_all split: option.split)

lemma reply_answering [simp]: "\<not> refused w \<Longrightarrow> reply (answering v) w = Inr v"
  by (simp add: reply_def answering_def response_json_def)

section \<open>The envelope convention\<close>

text \<open>
  C1. Whenever the body that comes back is an envelope whose \<^verbatim>\<open>success\<close> field is
  defined, \<^verbatim>\<open>http\<close> returns exactly that field. The test is
  \<^verbatim>\<open>success !== undefined\<close>, so the falsy values \<^verbatim>\<open>false\<close>, \<^verbatim>\<open>0\<close> and the empty string are
  returned like any other (the instances below).
\<close>

theorem http_returns_defined_success:
  assumes "reply rt (snd (http rt url init w)) = Inr (JObj kvs)"
    and "map_of kvs ''success'' = Some v"
    and "v \<noteq> JUndefined"
  shows "fst (http rt url init w) = Inr v"
  using assms by (simp add: http_result unwrap_defined)

theorem http_returns_defined_success_witness:
  "fst (http (answering (JObj [(''success'', JBool False)])) ''u'' None sample_world)
     = Inr (JBool False)
   \<and> fst (http (answering (JObj [(''success'', JNum 0)])) ''u'' None sample_world)
     = Inr (JNum 0)
   \<and> fst (http (answering (JObj [(''success'', JStr [])])) ''u'' None sample_world)
     = Inr (JStr [])"
  using
    http_returns_defined_success
      [of "answering (JObj [(''success'', JBool False)])" "''u''" None sample_world
          "[(''success'', JBool False)]" "JBool False"]
    http_returns_defined_success
      [of "answering (JObj [(''success'', JNum 0)])" "''u''" None sample_world
          "[(''success'', JNum 0)]" "JNum 0"]
    http_returns_defined_success
      [of "answering (JObj [(''success'', JStr [])])" "''u''" None sample_world
          "[(''success'', JStr [])]" "JStr []"]
  by simp

text \<open>
  The earlier draft of the primitive tests truthiness instead, and raises on the same
  body \<^verbatim>\<open>{"success": false}\<close>.
\<close>

lemma http_draft_rejects_false:
  "fst (http_draft (answering (JObj [(''success'', JBool False)])) ''u'' None sample_world)
     = Inl (Error JUndefined)"
  by (simp add: http_draft_result unwrap_draft_def)

text \<open>
  C2. Every call that goes through the envelope (every method but \<^verbatim>\<open>graphQL\<close>, which
  takes no envelope) raises when the \<^verbatim>\<open>success\<close> field of the body is absent, and the
  error it raises is built from the \<^verbatim>\<open>error\<close> string the server supplied.
\<close>

theorem envelope_call_raises_server_error:
  assumes "uses_envelope c"
    and "reply rt (snd (perform rt c w)) = Inr (JObj kvs)"
    and "get_property (JObj kvs) ''success'' = Inr JUndefined"
    and "map_of kvs ''error'' = Some (JStr message)"
  shows "fst (perform rt c w) = Inl (Error (JStr message))"
proof -
  have "get_property (JObj kvs) ''error'' = Inr (JStr message)"
    using assms(4) by simp
  with assms(3) have "unwrap (JObj kvs) = Inl (Error (JStr message))"
    by (rule unwrap_undefined)
  with assms(1,2) show ?thesis
    by (simp add: perform_result)
qed

theorem envelope_call_raises_server_error_witness:
  "fst (perform (answering (JObj [(''error'', JStr ''Not a member'')]))
          (SendMessage ''hub-1'' ''chat'' ''test message'') sample_world)
     = Inl (Error (JStr ''Not a member''))"
  using envelope_call_raises_server_error
      [of "SendMessage ''hub-1'' ''chat'' ''test message''"
          "answering (JObj [(''error'', JStr ''Not a member'')])" sample_world
          "[(''error'', JStr ''Not a member'')]" "''Not a member''"]
  by (simp add: sendMessage_def)

text \<open>
  C10. When the \<^verbatim>\<open>success\<close> field of the body is undefined, \<^verbatim>\<open>http\<close> does not return: it
  raises. When the \<^verbatim>\<open>error\<close> field is undefined as well, what it raises is
  \<^verbatim>\<open>new Error(undefined)\<close>.
\<close>

theorem http_raises_without_success:
  assumes "reply rt (snd (http rt url init w)) = Inr result"
    and "get_property result ''success'' = Inr JUndefined"
  shows "isl (fst (http rt url init w))
     \<and> (get_property result ''error'' = Inr JUndefined
          \<longrightarrow> fst (http rt url init w) = Inl (Error JUndefined))"
proof -
  obtain m where m: "get_property result ''error'' = Inr m"
    using assms(2) get_property_total by blast
  with assms(2) have "unwrap result = Inl (Error m)"
    by (rule unwrap_undefined)
  with assms(1) have "fst (http rt url init w) = Inl (Error m)"
    by (simp add: http_result)
  with m show ?thesis by auto
qed

theorem http_raises_without_success_witness:
  "isl (fst (http (answering (JObj [])) ''u'' None sample_world))
   \<and> fst (http (answering (JObj [])) ''u'' None sample_world) = Inl (Error JUndefined)"
  using http_raises_without_success
      [of "answering (JObj [])" "''u''" None sample_world "JObj []"]
  by simp

section \<open>The client object\<close>

text \<open>
  C9. No method changes the client: after any call, \<^verbatim>\<open>base_url\<close> and \<^verbatim>\<open>auth\<close> are what
  the constructor set.
\<close>

theorem client_unchanged:
  "base_url (client (snd (perform rt c w))) = base_url (client w)
   \<and> auth (client (snd (perform rt c w))) = auth (client w)"
  by (simp add: perform_client)

section \<open>The requests of the verb helpers\<close>

text \<open>
  C7. A \<^verbatim>\<open>post\<close> whose body argument is present sends \<^verbatim>\<open>JSON.stringify\<close> of it with
  \<^verbatim>\<open>Content-type: application/json\<close>; a \<^verbatim>\<open>post\<close> whose body argument is \<^verbatim>\<open>undefined\<close> sends
  the empty body with the empty \<^verbatim>\<open>Content-type\<close>. Both carry the client's token in the
  \<^verbatim>\<open>Authorization\<close> header.
\<close>

theorem post_request:
  "(b \<noteq> JUndefined \<longrightarrow>
      sent (snd (post rt url b w)) =
        sent w @
          [(url,
            \<lparr>method' = ''POST'',
             headers = [(''Authorization'', auth (client w)),
                        (''Content-type'', ''application/json'')],
             body = JSON_stringify rt b\<rparr>)])
   \<and> sent (snd (post rt url JUndefined w)) =
        sent w @
          [(url,
            \<lparr>method' = ''POST'',
             headers = [(''Authorization'', auth (client w)), (''Content-type'', [])],
             body = Some []\<rparr>)]"
  by (simp add: post_world)

theorem post_request_witness:
  "sent (snd (post (answering JNull) ''http://127.0.0.1:8080/api/message/hub-1/chat''
                (JObj [(''message'', JStr ''test message'')]) sample_world)) =
     [(''http://127.0.0.1:8080/api/message/hub-1/chat'',
       \<lparr>method' = ''POST'',
        headers = [(''Authorization'', ''user-1''), (''Content-type'', ''application/json'')],
        body = Some ''{\"message\":\"test message\"}''\<rparr>)]
   \<and> sent (snd (post (answering JNull) ''http://127.0.0.1:8080/api/hub/hub-1/join''
                  JUndefined sample_world)) =
     [(''http://127.0.0.1:8080/api/hub/hub-1/join'',
       \<lparr>method' = ''POST'',
        headers = [(''Authorization'', ''user-1''), (''Content-type'', [])],
        body = Some []\<rparr>)]"
  using
    post_request
      [of "JObj [(''message'', JStr ''test message'')]" "answering JNull"
          "''http://127.0.0.1:8080/api/message/hub-1/chat''" sample_world]
    post_request
      [of JUndefined "answering JNull" "''http://127.0.0.1:8080/api/hub/hub-1/join''"
          sample_world]
  by (simp add: sample_world_def answering_def sample_stringify_def)

text \<open>
  C5, as the claim states it, fails: a \<^verbatim>\<open>put\<close> with no body argument is sent with
  \<^verbatim>\<open>Content-type: application/json\<close>, not with an empty one, and its body is left
  undefined.
\<close>

theorem put_without_body_counterexample:
  "sent (snd (put (answering JNull) ''http://127.0.0.1:8080/api/hub/hub-1'' None
                sample_world)) =
     [(''http://127.0.0.1:8080/api/hub/hub-1'',
       \<lparr>method' = ''PUT'',
        headers = [(''Authorization'', ''user-1''), (''Content-type'', ''application/json'')],
        body = None\<rparr>)]
   \<and> map_of (headers (snd (last (sent (snd (put (answering JNull)
          ''http://127.0.0.1:8080/api/hub/hub-1'' None sample_world))))))
        ''Content-type'' \<noteq> Some []"
  by (simp add: put_world sample_world_def)

text \<open>
  C5, amended. Every \<^verbatim>\<open>put\<close> carries \<^verbatim>\<open>Content-type: application/json\<close>, whether or not a
  body argument is given, and hands the body argument on as it is: \<^verbatim>\<open>put\<close> takes a
  string and serializes nothing. The four methods that use it pass \<^verbatim>\<open>JSON.stringify\<close> of
  their payload.
\<close>

theorem put_request:
  "sent (snd (put rt url b w)) =
     sent w @
       [(url,
         \<lparr>method' = ''PUT'',
          headers = [(''Authorization'', auth (client w)),
                     (''Content-type'', ''application/json'')],
          body = b\<rparr>)]
   \<and> sent (snd (updateHub rt h update w)) =
     sent w @
       [(base_url (client w) @ ''/hub/'' @ h,
         \<lparr>method' = ''PUT'',
          headers = [(''Authorization'', auth (client w)),
                     (''Content-type'', ''application/json'')],
          body = JSON_stringify rt update\<rparr>)]
   \<and> sent (snd (updateChannel rt h c update w)) =
     sent w @
       [(base_url (client w) @ ''/channel/'' @ h @ ''/'' @ c,
         \<lparr>method' = ''PUT'',
          headers = [(''Authorization'', auth (client w)),
                     (''Content-type'', ''application/json'')],
          body = JSON_stringify rt update\<rparr>)]
   \<and> sent (snd (setMemberHubPermission rt h m p setting w)) =
     sent w @
       [(base_url (client w) @ ''/member/'' @ h @ ''/'' @ m @ ''/hub_permission/''
           @ HubPermission_value p,
         \<lparr>method' = ''PUT'',
          headers = [(''Authorization'', auth (client w)),
                     (''Content-type'', ''application/json'')],
          body = JSON_stringify rt (JObj [(''setting'', optional_boolean setting)])\<rparr>)]
   \<and> sent (snd (setMemberChannelPermission rt h m c q setting w)) =
     sent w @
       [(base_url (client w) @ ''/member/'' @ h @ ''/'' @ m @ ''/channel_permission/''
           @ c @ ''/'' @ ChannelPermission_value q,
         \<lparr>method' = ''PUT'',
          headers = [(''Authorization'', auth (client w)),
                     (''Content-type'', ''application/json'')],
          body = JSON_stringify rt (JObj [(''setting'', optional_boolean setting)])\<rparr>)]"
  by (simp add: put_world updateHub_def updateChannel_def setMemberHubPermission_def
      setMemberChannelPermission_def)

section \<open>Single endpoints\<close>

text \<open>
  C3. \<^verbatim>\<open>deleteHub\<close> is meant to issue \<^verbatim>\<open>DELETE /hub/{id}\<close>. The method calls \<^verbatim>\<open>this.http\<close>
  with the default request instead of \<^verbatim>\<open>this.delete\<close>, so what it sends is the \<^verbatim>\<open>GET\<close> of
  \<^verbatim>\<open>getHub\<close>: evaluated on the hub \<^verbatim>\<open>hub-1\<close>.
\<close>

theorem deleteHub_issues_GET:
  "sent (snd (deleteHub (answering (JObj [(''success'', JStr ''deleted'')])) ''hub-1''
                sample_world)) =
     [(''http://127.0.0.1:8080/api/hub/hub-1'',
       \<lparr>method' = ''GET'', headers = [(''Authorization'', ''user-1'')], body = None\<rparr>)]"
  by (simp add: deleteHub_def http_world default_init_def sample_world_def)

lemma deleteHub_is_getHub: "deleteHub rt h w = getHub rt h w"
  by (simp add: deleteHub_def getHub_def)

lemma deleteChannel_request:
  "sent (snd (deleteChannel rt h c w)) =
     sent w @
       [(base_url (client w) @ ''/channel/'' @ h @ ''/'' @ c,
         \<lparr>method' = ''DELETE'',
          headers = [(''Authorization'', auth (client w))],
          body = None\<rparr>)]"
  by (simp add: deleteChannel_def delete_world)

text \<open>
  C8. \<^verbatim>\<open>getMessagesAfter\<close> is meant to issue a \<^verbatim>\<open>GET\<close> of \<^verbatim>\<open>/message/{hub}/{channel}/after\<close>
  with the JSON body \<^verbatim>\<open>{from, max}\<close>, \<^verbatim>\<open>getMesssagesTimeRange\<close> a \<^verbatim>\<open>GET\<close> of
  \<^verbatim>\<open>/message/{hub}/{channel}/time_period\<close> with the JSON body
  \<^verbatim>\<open>{from, to, max, new_to_old}\<close>, and each to return the unwrapped list of messages. The
  request each of them builds is a \<^verbatim>\<open>GET\<close> that carries a body, which \<^verbatim>\<open>fetch\<close> turns down:
  the method raises a \<^verbatim>\<open>TypeError\<close>, no request is issued and no list comes back, whatever
  the server would have answered. Evaluated on the channel \<^verbatim>\<open>chat\<close> of the hub \<^verbatim>\<open>hub-1\<close>,
  with a server that would answer with a list.
\<close>

theorem message_queries_refused:
  "fst (getMessagesAfter (answering (JObj [(''success'', JArr [])])) ''hub-1'' ''chat''
          ''message-1'' 50 sample_world) = Inl TypeError
   \<and> sent (snd (getMessagesAfter (answering (JObj [(''success'', JArr [])])) ''hub-1''
                  ''chat'' ''message-1'' 50 sample_world)) = []
   \<and> fst (getMesssagesTimeRange (answering (JObj [(''success'', JArr [])])) ''hub-1''
            ''chat'' (Date 0) (Date 1000) 50 True sample_world) = Inl TypeError
   \<and> sent (snd (getMesssagesTimeRange (answering (JObj [(''success'', JArr [])])) ''hub-1''
                  ''chat'' (Date 0) (Date 1000) 50 True sample_world)) = []"
  by (simp add: getMessagesAfter_def getMesssagesTimeRange_def http_refused answering_def
      sample_stringify_def sample_world_def)

text \<open>
  The same for every client and every serializer that yields a text, as
  \<^verbatim>\<open>JSON.stringify\<close> does on an object.
\<close>

lemma getMessagesAfter_refused:
  "JSON_stringify rt (JObj [(''from'', JStr from), (''max'', JNum n)]) = Some t \<Longrightarrow>
   getMessagesAfter rt h c from n w = (Inl TypeError, w\<lparr>refused := True\<rparr>)"
  by (simp add: getMessagesAfter_def http_refused)

lemma getMesssagesTimeRange_refused:
  "JSON_stringify rt
     (JObj [(''from'', JDate t1), (''to'', JDate t2), (''max'', JNum n),
            (''new_to_old'', JBool new_to_old)]) = Some t \<Longrightarrow>
   getMesssagesTimeRange rt h c t1 t2 n new_to_old w = (Inl TypeError, w\<lparr>refused := True\<rparr>)"
  by (simp add: getMesssagesTimeRange_def http_refused)

text \<open>
  C6. \<^verbatim>\<open>graphQL\<close> sends a \<^verbatim>\<open>POST\<close> of \<^verbatim>\<open>/graphql\<close> whose body is
  \<^verbatim>\<open>JSON.stringify({query, variables})\<close> and returns the parsed body as it comes back. No
  envelope test is applied: it never raises an \<^verbatim>\<open>Error\<close> made from a field of the body.
\<close>

theorem graphQL_raw:
  "sent (snd (graphQL rt query variables w)) =
     sent w @
       [(base_url (client w) @ ''/graphql'',
         \<lparr>method' = ''POST'',
          headers = [(''Authorization'', auth (client w)),
                     (''Content-type'', ''application/json'')],
          body = JSON_stringify rt
                   (JObj [(''query'', JStr query), (''variables'', variables)])\<rparr>)]
   \<and> fst (graphQL rt query variables w) = reply rt (snd (graphQL rt query variables w))
   \<and> (\<forall>m. fst (graphQL rt query variables w) \<noteq> Inl (Error m))"
  by (simp add: graphQL_world graphQL_result reply_not_Error)

theorem graphQL_raw_witness:
  "fst (graphQL (answering (JObj [(''error'', JStr ''boom'')])) ''query{}'' JUndefined
          sample_world)
     = Inr (JObj [(''error'', JStr ''boom'')])"
  using graphQL_raw
      [of "answering (JObj [(''error'', JStr ''boom'')])" "''query{}''" JUndefined
          sample_world]
  by simp






end
